theory Spec2Isabelle
  imports Complex_Main
begin

section \<open>Salary visualizer: data model\<close>

text \<open>
  The salary columns hold 64-bit floats after \<^verbatim>\<open>pd.to_numeric(..., errors="coerce")\<close>.
  A cell is modelled as \<open>real option\<close>: \<open>None\<close> is NaN (a missing value), \<open>Some v\<close> is a
  number. Rounding and the infinities of IEEE arithmetic are outside the model; the
  properties below depend on the sign of a difference and on comparisons only.
\<close>

type_synonym float64 = "real option"

text \<open>
  One row of the table after lines 145-146 of app.py (rows without a department dropped,
  the department coerced to a string).
\<close>

record row =
  Department :: string
  Average_Salary :: float64
  Min_Salary :: float64
  Max_Salary :: float64

type_synonym table = "row list"

text \<open>Float subtraction of two columns, element by element: NaN propagates.\<close>

definition fsub :: "float64 \<Rightarrow> float64 \<Rightarrow> float64" where
  "fsub a b = (case a of None \<Rightarrow> None | Some x \<Rightarrow> (case b of None \<Rightarrow> None | Some y \<Rightarrow> Some (x - y)))"

text \<open>\<^verbatim>\<open>Series.fillna(0)\<close> on one element.\<close>

definition fillna0 :: "float64 \<Rightarrow> real" where
  "fillna0 a = (case a of None \<Rightarrow> 0 | Some x \<Rightarrow> x)"

section \<open>The bar chart (make\_bar\_fig)\<close>

text \<open>
  \<^verbatim>\<open>left_err = (df["Average_Salary"] - df["Min_Salary"]).fillna(0).tolist()\<close>
  \<^verbatim>\<open>right_err = (df["Max_Salary"] - df["Average_Salary"]).fillna(0).tolist()\<close>
\<close>

definition left_err :: "table \<Rightarrow> real list" where
  "left_err df = map (\<lambda>r. fillna0 (fsub (Average_Salary r) (Min_Salary r))) df"

definition right_err :: "table \<Rightarrow> real list" where
  "right_err df = map (\<lambda>r. fillna0 (fsub (Max_Salary r) (Average_Salary r))) df"

text \<open>
  The figure, reduced to the data the function computes: the bar trace (x, y, customdata),
  the error bars (present when \<open>show_error\<close>) and the layout height.
\<close>

record error_x =
  array :: "real list"
  arrayminus :: "real list"

record bar_fig =
  bar_x :: "float64 list"
  bar_y :: "string list"
  customdata :: "(real \<times> real) list"
  bar_error_x :: "error_x option"
  title :: string
  height :: nat

definition make_bar_fig :: "table \<Rightarrow> bool \<Rightarrow> string \<Rightarrow> bar_fig" where
  "make_bar_fig df show_error ttl =
     (let y = map Department df;
          x = map Average_Salary df;
          l = left_err df;
          r = right_err df
      in \<lparr> bar_x = x, bar_y = y,
           customdata = map (\<lambda>r. (fillna0 (Min_Salary r), fillna0 (Max_Salary r))) df,
           bar_error_x = (if show_error then Some \<lparr> array = r, arrayminus = l \<rparr> else None),
           title = ttl,
           height = 60 * max 4 (length df) \<rparr>)"

section \<open>The distribution simulator (simulate\_distributions)\<close>

datatype error = ValueError string | TypeError | SchemaError

text \<open>
  NumPy's generator is a collaborator of the program: its state type \<open>'g\<close>, the seeding
  function and the routine that draws one triangular variate and advances the state are
  parameters of the model.
\<close>

record 'g bit_generator =
  seed_state :: "nat \<Rightarrow> 'g"
  next_triangular :: "'g \<Rightarrow> real \<Rightarrow> real \<Rightarrow> real \<Rightarrow> real \<times> 'g"

text \<open>
  \<^verbatim>\<open>np.random.default_rng(seed)\<close>: an integer seed fixes the initial state; with
  \<^verbatim>\<open>seed=None\<close> NumPy seeds from fresh operating-system entropy instead. NumPy accepts
  non-negative seeds only, and the script's one call passes the default 42: a seed is a
  natural number.
\<close>

definition default_rng :: "'g bit_generator \<Rightarrow> nat \<Rightarrow> nat option \<Rightarrow> 'g" where
  "default_rng G entropy seed = seed_state G (case seed of None \<Rightarrow> entropy | Some s \<Rightarrow> s)"

text \<open>Filling an array of \<open>sz\<close> variates, one draw after the other.\<close>

fun draws :: "'g bit_generator \<Rightarrow> 'g \<Rightarrow> real \<Rightarrow> real \<Rightarrow> real \<Rightarrow> nat \<Rightarrow> real list \<times> 'g" where
  "draws G g left mode right 0 = ([], g)"
| "draws G g left mode right (Suc k) =
     (case next_triangular G g left mode right of
        (x, g') \<Rightarrow> (case draws G g' left mode right k of (xs, g'') \<Rightarrow> (x # xs, g'')))"

text \<open>
  \<^verbatim>\<open>rng.triangular(left, mode, right, size=sz)\<close>. NumPy checks its scalar arguments in
  this order and raises ValueError before drawing anything.
\<close>

definition triangular ::
  "'g bit_generator \<Rightarrow> 'g \<Rightarrow> real \<Rightarrow> real \<Rightarrow> real \<Rightarrow> nat \<Rightarrow> error + (real list \<times> 'g)" where
  "triangular G g left mode right sz =
     (if left > mode then Inl (ValueError ''left > mode'')
      else if mode > right then Inl (ValueError ''mode > right'')
      else if left = right then Inl (ValueError ''left == right'')
      else Inr (draws G g left mode right sz))"

text \<open>A long-form sample table: its column labels and its (Department, Salary) rows.\<close>

record sample_frame =
  columns :: "string list"
  samples :: "(string \<times> real) list"

text \<open>\<^verbatim>\<open>pd.DataFrame({"Department": dept, "Salary": samples})\<close>: the scalar is broadcast.\<close>

definition data_frame :: "string \<Rightarrow> real list \<Rightarrow> sample_frame" where
  "data_frame dept xs =
     \<lparr> columns = [''Department'', ''Salary''], samples = map (\<lambda>x. (dept, x)) xs \<rparr>"

text \<open>
  \<^verbatim>\<open>pd.concat(rows, ignore_index=True)\<close>: the rows one frame after the other, the columns
  the union of the frames' columns in order of first appearance.
\<close>

definition pd_concat :: "sample_frame list \<Rightarrow> sample_frame" where
  "pd_concat fs =
     \<lparr> columns = rev (remdups (rev (concat (map columns fs)))),
       samples = concat (map samples fs) \<rparr>"

text \<open>
  The body of the \<^verbatim>\<open>for _, r in df.iterrows()\<close> loop, with the generator and the list
  \<open>rows\<close> threaded through. The salary cells are floats, so the three \<^verbatim>\<open>float(...)\<close>
  conversions cannot raise; a NaN among them, or \<open>a >= c\<close>, continues with the next row.
  The call of \<open>triangular\<close> is outside the \<^verbatim>\<open>try\<close>: its error leaves the function.
\<close>

fun simulate_loop ::
  "'g bit_generator \<Rightarrow> nat \<Rightarrow> 'g \<Rightarrow> sample_frame list \<Rightarrow> table \<Rightarrow> error + sample_frame list" where
  "simulate_loop G n rng rows [] = Inr rows"
| "simulate_loop G n rng rows (r # rs) =
     (case (Min_Salary r, Average_Salary r, Max_Salary r) of
        (Some a, Some b, Some c) \<Rightarrow>
          (if a \<ge> c then simulate_loop G n rng rows rs
           else (case triangular G rng a b c n of
                   Inl e \<Rightarrow> Inl e
                 | Inr (xs, rng') \<Rightarrow>
                     simulate_loop G n rng' (rows @ [data_frame (Department r) xs]) rs))
      | _ \<Rightarrow> simulate_loop G n rng rows rs)"

definition simulate_distributions ::
  "'g bit_generator \<Rightarrow> nat \<Rightarrow> table \<Rightarrow> nat \<Rightarrow> nat option \<Rightarrow> error + sample_frame" where
  "simulate_distributions G entropy df samples_per_dept seed =
     (case simulate_loop G samples_per_dept (default_rng G entropy seed) [] df of
        Inl e \<Rightarrow> Inl e
      | Inr rows \<Rightarrow>
          (if rows = [] then Inr \<lparr> columns = [''Department'', ''Salary''], samples = [] \<rparr>
           else Inr (pd_concat rows)))"

text \<open>
  A row qualifies for simulation, in the specification's words, when Min, Average and Max
  are all present and Min < Max.
\<close>

definition qualifies :: "row \<Rightarrow> bool" where
  "qualifies r =
     (case (Min_Salary r, Average_Salary r, Max_Salary r) of
        (Some a, Some b, Some c) \<Rightarrow> a < c
      | _ \<Rightarrow> False)"

text \<open>A toy generator for concrete runs: the state counts the draws, each draw returns the mode.\<close>

definition toy_generator :: "nat bit_generator" where
  "toy_generator = \<lparr> seed_state = (\<lambda>s. s), next_triangular = (\<lambda>g l m r. (m, Suc g)) \<rparr>"

section \<open>Filtering and sorting (lines 148-156)\<close>

text \<open>
  \<^verbatim>\<open>if selected: df = df[df["Department"].isin(selected)]\<close>; \<open>selected\<close> is the list the
  multiselect widget returns, and an empty list is falsy.
\<close>

definition filter_selected :: "string list \<Rightarrow> table \<Rightarrow> table" where
  "filter_selected selected df =
     (if selected \<noteq> [] then filter (\<lambda>r. Department r \<in> set selected) df else df)"

text \<open>
  The sort is one call of \<^verbatim>\<open>df.sort_values(column, ascending=...)\<close> per branch, with the
  defaults \<^verbatim>\<open>kind="quicksort"\<close> and \<^verbatim>\<open>na_position="last"\<close>. The sorting routine belongs to
  pandas, not to the program, so it is a parameter \<open>sort_values\<close> of the model;
  \<^verbatim>\<open>reset_index(drop=True)\<close> renumbers the rows and leaves the list of rows as it is. The
  program names the column and the direction and nothing else: the order of rows with equal
  keys is whatever the routine behind the default algorithm returns.
\<close>

definition sort_rows :: "(string \<Rightarrow> bool \<Rightarrow> table \<Rightarrow> table) \<Rightarrow> string \<Rightarrow> table \<Rightarrow> table" where
  "sort_rows sort_values sort_choice df =
     (if sort_choice = ''Average (desc)'' then sort_values ''Average_Salary'' False df
      else if sort_choice = ''Average (asc)'' then sort_values ''Average_Salary'' True df
      else sort_values ''Department'' True df)"

section \<open>Loading and schema validation (load\_data, lines 140-143)\<close>

text \<open>
  A Python string is a sequence of Unicode code points; the text of a file, the labels of a
  frame and its string values are lists of code points.
\<close>

type_synonym unicode = "nat list"

text \<open>The code points of a literal of the source.\<close>

definition codes :: "string \<Rightarrow> unicode" where
  "codes s = map of_char s"

text \<open>
  A frame as pandas holds it: the columns in their order, each a label with its values. A
  value is a string or a float (NaN for a missing one). Labels may repeat, so the frame is
  an association list.
\<close>

datatype cell = Str unicode | Num float64

type_synonym dataframe = "(unicode \<times> cell list) list"

text \<open>
  The two pandas routines \<open>load_data\<close> calls are parameters of the model:
  \<^verbatim>\<open>pd.read_csv\<close>, from the decoded text of the file to a frame or a parse error, and
  \<^verbatim>\<open>pd.to_numeric(..., errors="coerce")\<close> on one column.
\<close>

record pandas =
  read_csv :: "unicode \<Rightarrow> error + dataframe"
  to_numeric :: "cell list \<Rightarrow> cell list"

definition newline :: nat where
  "newline = 0x0A"

definition comma :: nat where
  "comma = of_char CHR '',''"

text \<open>The triple-quoted literal of lines 23-33: ten lines, each ended by a newline.\<close>

definition EXAMPLE_CSV :: unicode where
  "EXAMPLE_CSV = concat (map (\<lambda>line. codes line @ [newline])
     [''Department,Average_Salary,Min_Salary,Max_Salary'',
      ''IT,28560.182889,10544.19,115178.51'',
      ''Finance,28055.533689,8987.86,101294.41'',
      ''Logistics/Warehousing,27574.698600,9027.53,153451.58'',
      ''Store Operations,27404.359873,8848.62,177873.61'',
      ''Fresh Produce,26915.946969,8998.42,110475.60'',
      ''Marketing,26796.816800,9736.23,65923.63'',
      ''HR,26539.921733,8823.46,58951.29'',
      ''Meat/Fish & Bakery,26535.722133,8867.88,116453.67'',
      ''Customer Service,26244.393800,9449.99,50949.01''])"

text \<open>
  \<^verbatim>\<open>str.strip()\<close> removes the characters for which \<^verbatim>\<open>str.isspace\<close> holds from both ends
  and changes nothing else; in particular the case of the letters is kept. The whitespace
  of Python: U+0009 to U+000D, U+001C to U+0020, U+0085, U+00A0, U+1680, U+2000 to U+200A,
  U+2028, U+2029, U+202F, U+205F and U+3000.
\<close>

definition isspace :: "nat \<Rightarrow> bool" where
  "isspace c \<longleftrightarrow>
     (0x09 \<le> c \<and> c \<le> 0x0D) \<or> (0x1C \<le> c \<and> c \<le> 0x20) \<or> c = 0x85 \<or> c = 0xA0
     \<or> c = 0x1680 \<or> (0x2000 \<le> c \<and> c \<le> 0x200A) \<or> c = 0x2028 \<or> c = 0x2029
     \<or> c = 0x202F \<or> c = 0x205F \<or> c = 0x3000"

definition strip :: "unicode \<Rightarrow> unicode" where
  "strip s = rev (dropWhile isspace (rev (dropWhile isspace s)))"

text \<open>
  \<^verbatim>\<open>if c in df.columns: df[c] = pd.to_numeric(df[c], errors="coerce")\<close>. When the label
  occurs more than once \<^verbatim>\<open>df[c]\<close> is a frame, not a column, and \<open>to_numeric\<close> raises
  TypeError.
\<close>

definition coerce_column :: "pandas \<Rightarrow> unicode \<Rightarrow> dataframe \<Rightarrow> error + dataframe" where
  "coerce_column P c df =
     (if c \<in> set (map fst df)
      then (if length (filter (\<lambda>col. fst col = c) df) > 1 then Inl TypeError
            else Inr (map (\<lambda>col. if fst col = c then (fst col, to_numeric P (snd col)) else col) df))
      else Inr df)"

fun coerce_columns :: "pandas \<Rightarrow> unicode list \<Rightarrow> dataframe \<Rightarrow> error + dataframe" where
  "coerce_columns P [] df = Inr df"
| "coerce_columns P (c # cs) df =
     (case coerce_column P c df of Inl e \<Rightarrow> Inl e | Inr df' \<Rightarrow> coerce_columns P cs df')"

definition load_data :: "pandas \<Rightarrow> unicode option \<Rightarrow> error + dataframe" where
  "load_data P uploaded_file =
     (case (case uploaded_file of
              None \<Rightarrow> read_csv P EXAMPLE_CSV
            | Some content \<Rightarrow> read_csv P content) of
        Inl e \<Rightarrow> Inl e
      | Inr df \<Rightarrow>
          coerce_columns P (map codes [''Average_Salary'', ''Min_Salary'', ''Max_Salary''])
            (map (\<lambda>col. (strip (fst col), snd col)) df))"

text \<open>
  Lines 140-143: \<^verbatim>\<open>st.error\<close> followed by \<^verbatim>\<open>st.stop()\<close> ends the run of the script;
  the model returns \<open>SchemaError\<close> in its place.
\<close>

definition required_cols :: "unicode list" where
  "required_cols = map codes [''Department'', ''Average_Salary'', ''Min_Salary'', ''Max_Salary'']"

definition check_required_cols :: "dataframe \<Rightarrow> error + dataframe" where
  "check_required_cols df =
     (if \<not> set required_cols \<subseteq> set (map fst df) then Inl SchemaError else Inr df)"

text \<open>The labels of a frame, and its rows (one list of values per row).\<close>

definition df_columns :: "dataframe \<Rightarrow> unicode list" where
  "df_columns df = map fst df"

definition df_records :: "dataframe \<Rightarrow> cell list list" where
  "df_records df = transpose (map snd df)"

text \<open>
  For concrete runs, pandas on plain comma-separated text: lines ended by a newline, blank
  lines skipped, fields separated by commas and taken as they are, the first line the
  header, every record as long as the header, numbers in decimal notation (an optional
  sign, digits, an optional fraction). A column whose non-empty fields are all numbers is
  numeric, with NaN for an empty field; the other columns hold their text. Quoting,
  exponents, the further markers of missing values and records of another length than the
  header are outside this instance. The embedded dataset lies within it.
\<close>

fun split_on :: "nat \<Rightarrow> unicode \<Rightarrow> unicode list" where
  "split_on d [] = [[]]"
| "split_on d (c # cs) =
     (if c = d then [] # split_on d cs
      else (case split_on d cs of [] \<Rightarrow> [[c]] | f # fs \<Rightarrow> (c # f) # fs))"

definition isdigit :: "nat \<Rightarrow> bool" where
  "isdigit c \<longleftrightarrow> of_char CHR ''0'' \<le> c \<and> c \<le> of_char CHR ''9''"

definition digits_value :: "unicode \<Rightarrow> nat" where
  "digits_value ds = foldl (\<lambda>acc c. 10 * acc + (c - of_char CHR ''0'')) 0 ds"

definition parse_unsigned :: "unicode \<Rightarrow> float64" where
  "parse_unsigned s =
     (let ip = takeWhile isdigit s; rest = dropWhile isdigit s
      in case rest of
           [] \<Rightarrow> if ip = [] then None else Some (of_nat (digits_value ip))
         | c # fp \<Rightarrow>
             if c = of_char CHR ''.'' \<and> list_all isdigit fp \<and> (ip \<noteq> [] \<or> fp \<noteq> [])
             then Some (of_nat (digits_value (ip @ fp)) / 10 ^ length fp)
             else None)"

definition parse_decimal :: "unicode \<Rightarrow> float64" where
  "parse_decimal s =
     (case s of
        [] \<Rightarrow> None
      | c # t \<Rightarrow>
          if c = of_char CHR ''-'' then map_option uminus (parse_unsigned t)
          else if c = of_char CHR ''+'' then parse_unsigned t
          else parse_unsigned s)"

definition is_number :: "unicode \<Rightarrow> bool" where
  "is_number s = (case parse_decimal s of None \<Rightarrow> False | Some v \<Rightarrow> True)"

definition infer_column :: "unicode list \<Rightarrow> cell list" where
  "infer_column vals =
     (if list_all (\<lambda>f. f = [] \<or> is_number f) vals
      then map (\<lambda>f. Num (parse_decimal f)) vals
      else map (\<lambda>f. if f = [] then Num None else Str f) vals)"

definition plain_read_csv :: "unicode \<Rightarrow> error + dataframe" where
  "plain_read_csv content =
     (case filter (\<lambda>l. l \<noteq> []) (split_on newline content) of
        [] \<Rightarrow> Inl (ValueError ''No columns to parse from file'')
      | h # ls \<Rightarrow>
          (let header = split_on comma h;
               records = map (split_on comma) ls
           in if list_all (\<lambda>r. length r = length header) records
              then Inr (map (\<lambda>j. (header ! j, infer_column (map (\<lambda>r. r ! j) records)))
                          [0..<length header])
              else Inl (ValueError ''Error tokenizing data'')))"

definition plain_to_numeric :: "cell list \<Rightarrow> cell list" where
  "plain_to_numeric vs = map (\<lambda>v. case v of Num x \<Rightarrow> Num x | Str s \<Rightarrow> Num (parse_decimal s)) vs"

definition plain_pandas :: pandas where
  "plain_pandas = \<lparr> read_csv = plain_read_csv, to_numeric = plain_to_numeric \<rparr>"

text \<open>
  Two files: the header of the specification's scenario, and a header that spells the four
  names exactly but starts with a no-break space and ends with an ideographic space.
\<close>

definition lowercase_csv :: unicode where
  "lowercase_csv = codes ''dept, AVG, MIN, MAX'' @ [newline] @ codes ''a,1,2,3'' @ [newline]"

definition nbsp_csv :: unicode where
  "nbsp_csv = [0xA0] @ codes ''Department,Average_Salary,Min_Salary,Max_Salary'' @ [0x3000, newline]
              @ codes ''a,1,0,2'' @ [newline]"


text \<open>
  The extents as the specification words them: \<open>max(0, Average - Min)\<close> and
  \<open>max(0, Max - Average)\<close>, with 0 where an operand is missing.
\<close>

definition spec_left_extent :: "row \<Rightarrow> real" where
  "spec_left_extent r =
     (case (Average_Salary r, Min_Salary r) of (Some a, Some m) \<Rightarrow> max 0 (a - m) | _ \<Rightarrow> 0)"

definition spec_right_extent :: "row \<Rightarrow> real" where
  "spec_right_extent r =
     (case (Max_Salary r, Average_Salary r) of (Some m, Some a) \<Rightarrow> max 0 (m - a) | _ \<Rightarrow> 0)"

text \<open>What the code computes for one row: the plain difference, 0 where an operand is missing.\<close>

definition diff_or_zero :: "float64 \<Rightarrow> float64 \<Rightarrow> real" where
  "diff_or_zero a b = (case (a, b) of (Some x, Some y) \<Rightarrow> x - y | _ \<Rightarrow> 0)"

section \<open>Properties of the bar chart\<close>

lemma fillna0_fsub: "fillna0 (fsub a b) = diff_or_zero a b"
  by (simp add: fillna0_def fsub_def diff_or_zero_def split: option.splits)

text \<open>
  C1 (as stated, refuted): a row with Average 1 below Min 5 gets the left extent -4, where
  the specification's \<open>max(0, Average - Min)\<close> is 0; nothing in the function clamps.
\<close>

theorem C1_clamp_counterexample:
  "arrayminus (the (bar_error_x (make_bar_fig
      [\<lparr> Department = ''A'', Average_Salary = Some 1, Min_Salary = Some 5, Max_Salary = Some 10 \<rparr>]
      True ''t''))) = [- 4]
   \<and> map spec_left_extent
      [\<lparr> Department = ''A'', Average_Salary = Some 1, Min_Salary = Some 5, Max_Salary = Some 10 \<rparr>] = [0]"
  by (simp add: make_bar_fig_def left_err_def right_err_def fillna0_def fsub_def spec_left_extent_def)

text \<open>
  C1 (amended): for every row of the table, the left extent is Average - Min and the right
  extent is Max - Average, unclamped, and 0 where one of the two operands is missing. The
  left extent equals the specification's clamped value exactly for the rows that do not
  have Average below Min, the right one exactly for the rows that do not have Max below
  Average.
\<close>

theorem C1_error_extents:
  assumes "bar_error_x (make_bar_fig df True ttl) = Some e" and "i < length df"
  shows "length (arrayminus e) = length df \<and> length (array e) = length df
       \<and> arrayminus e ! i = diff_or_zero (Average_Salary (df ! i)) (Min_Salary (df ! i))
       \<and> array e ! i = diff_or_zero (Max_Salary (df ! i)) (Average_Salary (df ! i))
       \<and> (arrayminus e ! i = spec_left_extent (df ! i)
            \<longleftrightarrow> \<not> (\<exists>a m. Average_Salary (df ! i) = Some a \<and> Min_Salary (df ! i) = Some m \<and> a < m))
       \<and> (array e ! i = spec_right_extent (df ! i)
            \<longleftrightarrow> \<not> (\<exists>a m. Average_Salary (df ! i) = Some a \<and> Max_Salary (df ! i) = Some m \<and> m < a))"
proof -
  from assms(1) have e: "e = \<lparr> array = right_err df, arrayminus = left_err df \<rparr>"
    by (simp add: make_bar_fig_def Let_def)
  have l: "arrayminus e ! i = diff_or_zero (Average_Salary (df ! i)) (Min_Salary (df ! i))"
    using assms(2) by (simp add: e left_err_def fillna0_fsub)
  have r: "array e ! i = diff_or_zero (Max_Salary (df ! i)) (Average_Salary (df ! i))"
    using assms(2) by (simp add: e right_err_def fillna0_fsub)
  have ls: "diff_or_zero (Average_Salary (df ! i)) (Min_Salary (df ! i)) = spec_left_extent (df ! i)
        \<longleftrightarrow> \<not> (\<exists>a m. Average_Salary (df ! i) = Some a \<and> Min_Salary (df ! i) = Some m \<and> a < m)"
    by (auto simp: diff_or_zero_def spec_left_extent_def max_def split: option.splits)
  have rs: "diff_or_zero (Max_Salary (df ! i)) (Average_Salary (df ! i)) = spec_right_extent (df ! i)
        \<longleftrightarrow> \<not> (\<exists>a m. Average_Salary (df ! i) = Some a \<and> Max_Salary (df ! i) = Some m \<and> m < a)"
    by (auto simp: diff_or_zero_def spec_right_extent_def max_def split: option.splits)
  show ?thesis
    using l r ls rs by (simp add: e left_err_def right_err_def)
qed

theorem C1_error_extents_witness:
  "bar_error_x (make_bar_fig
      [\<lparr> Department = ''A'', Average_Salary = Some 5, Min_Salary = None, Max_Salary = Some 10 \<rparr>,
       \<lparr> Department = ''B'', Average_Salary = Some 1, Min_Salary = Some 5, Max_Salary = Some 10 \<rparr>]
      True ''t'') = Some \<lparr> array = [5, 9], arrayminus = [0, - 4] \<rparr>
   \<and> arrayminus \<lparr> array = [5, 9], arrayminus = [0, - 4] \<rparr> ! Suc 0 = diff_or_zero (Some 1) (Some 5)
   \<and> array \<lparr> array = [5, 9 :: real], arrayminus = [0, - 4] \<rparr> ! Suc 0 = diff_or_zero (Some 10) (Some 1)
   \<and> arrayminus \<lparr> array = [5, 9], arrayminus = [0, - 4] \<rparr> ! Suc 0
       \<noteq> spec_left_extent
           \<lparr> Department = ''B'', Average_Salary = Some 1, Min_Salary = Some 5, Max_Salary = Some 10 \<rparr>"
proof -
  have fig: "bar_error_x (make_bar_fig
      [\<lparr> Department = ''A'', Average_Salary = Some 5, Min_Salary = None, Max_Salary = Some 10 \<rparr>,
       \<lparr> Department = ''B'', Average_Salary = Some 1, Min_Salary = Some 5, Max_Salary = Some 10 \<rparr>]
      True ''t'') = Some \<lparr> array = [5, 9], arrayminus = [0, - 4] \<rparr>"
    by (simp add: make_bar_fig_def left_err_def right_err_def fillna0_def fsub_def)
  have i: "Suc 0 < length
      [\<lparr> Department = ''A'', Average_Salary = Some 5, Min_Salary = None, Max_Salary = Some 10 \<rparr>,
       \<lparr> Department = ''B'', Average_Salary = Some (1 :: real), Min_Salary = Some 5, Max_Salary = Some 10 \<rparr>]"
    by simp
  from C1_error_extents [OF fig i] fig show ?thesis by simp
qed

section \<open>Properties of the simulator\<close>

lemma length_draws: "draws G g l m r k = (xs, g') \<Longrightarrow> length xs = k"
  by (induction k arbitrary: g xs g') (auto split: prod.splits)

lemma simulate_loop_skip:
  "\<not> qualifies r \<Longrightarrow> simulate_loop G n g acc (r # rs) = simulate_loop G n g acc rs"
  by (auto simp: qualifies_def split: option.splits)

lemma simulate_loop_none_qualify:
  "list_all (\<lambda>r. \<not> qualifies r) df \<Longrightarrow> simulate_loop G n g acc df = Inr acc"
  by (induction df) (simp_all add: simulate_loop_skip del: simulate_loop.simps(2))

lemma simulate_loop_departments:
  "simulate_loop G n g acc df = Inr rows \<Longrightarrow>
   \<exists>new. rows = acc @ new
     \<and> length new = length (filter qualifies df)
     \<and> list_all (\<lambda>f. columns f = [''Department'', ''Salary'']) new
     \<and> map (\<lambda>f. map fst (samples f)) new = map (\<lambda>r. replicate n (Department r)) (filter qualifies df)"
proof (induction df arbitrary: g acc)
  case Nil
  then show ?case by simp
next
  case (Cons r rs)
  show ?case
  proof (cases "qualifies r")
    case False
    with Cons.prems have "simulate_loop G n g acc rs = Inr rows"
      by (simp add: simulate_loop_skip del: simulate_loop.simps(2))
    from Cons.IH [OF this] False show ?thesis by simp
  next
    case True
    then obtain a b c where abc: "Min_Salary r = Some a" "Average_Salary r = Some b"
        "Max_Salary r = Some c" "a < c"
      by (auto simp: qualifies_def split: option.splits)
    with Cons.prems obtain xs g' where
        t: "triangular G g a b c n = Inr (xs, g')"
        and rest: "simulate_loop G n g' (acc @ [data_frame (Department r) xs]) rs = Inr rows"
      by (auto split: sum.splits)
    from t have "draws G g a b c n = (xs, g')"
      by (auto simp: triangular_def split: if_splits)
    then have len: "length xs = n" by (rule length_draws)
    from Cons.IH [OF rest] obtain new where
        new: "rows = (acc @ [data_frame (Department r) xs]) @ new"
          "length new = length (filter qualifies rs)"
          "list_all (\<lambda>f. columns f = [''Department'', ''Salary'']) new"
          "map (\<lambda>f. map fst (samples f)) new = map (\<lambda>r. replicate n (Department r)) (filter qualifies rs)"
      by blast
    have "map fst (samples (data_frame (Department r) xs)) = replicate n (Department r)"
      using len by (simp add: data_frame_def map_replicate_const comp_def flip: replicate_length_same)
    with new True show ?thesis
      by (intro exI [of _ "data_frame (Department r) xs # new"]) (simp add: data_frame_def)
  qed
qed

lemma pd_concat_columns:
  assumes "fs \<noteq> []" "list_all (\<lambda>f. columns f = cs) fs" "distinct cs"
  shows "columns (pd_concat fs) = cs"
proof -
  from assms(1) obtain f fs' where fs: "fs = f # fs'" by (cases fs) auto
  with assms(2) have f: "columns f = cs" and rest: "set (concat (map columns fs')) \<subseteq> set cs"
    by (auto simp: list_all_iff)
  have "remdups (rev (concat (map columns fs))) = remdups (rev (concat (map columns fs')) @ rev cs)"
    by (simp add: fs f)
  also have "\<dots> = remdups (rev cs)"
    using rest by (simp add: remdups_append filter_empty_conv subset_iff)
  also have "\<dots> = rev cs" using assms(3) by (simp add: distinct_remdups_id)
  finally show ?thesis by (simp add: pd_concat_def)
qed

text \<open>
  C2 (the code at the failing input): a row with all three values present and Min < Max
  passes the guard of the loop, but its Average 1 lies below Min 5, so
  \<open>triangular\<close> raises ValueError, outside the \<^verbatim>\<open>try\<close>; the row is not skipped and
  the whole simulation fails, for every generator, sample count and seed.
\<close>

theorem C2_mode_outside_range_raises:
  "simulate_distributions G entropy
     [\<lparr> Department = ''A'', Average_Salary = Some 1, Min_Salary = Some 5, Max_Salary = Some 10 \<rparr>]
     n seed = Inl (ValueError ''left > mode'')"
  by (simp add: simulate_distributions_def triangular_def)

text \<open>
  C4: with an integer seed the generator is created inside the function from the seed
  alone, so the output is a function of (table, samplesPerDept, seed): two invocations,
  whatever the entropy available to each of them, return the same result.
\<close>

theorem C4_simulate_deterministic:
  "simulate_distributions G entropy1 df n (Some seed) = simulate_distributions G entropy2 df n (Some seed)"
  by (simp add: simulate_distributions_def default_rng_def)

text \<open>
  C5: when no row of the table qualifies, the simulation returns the empty table with
  the two columns Department and Salary and 0 rows (a value, never an error).
\<close>

theorem C5_no_qualifying_rows:
  assumes "\<forall>r \<in> set df. \<not> qualifies r"
  shows "simulate_distributions G entropy df n seed
         = Inr \<lparr> columns = [''Department'', ''Salary''], samples = [] \<rparr>"
proof -
  from assms have "list_all (\<lambda>r. \<not> qualifies r) df" by (simp add: list_all_iff)
  then have "simulate_loop G n (default_rng G entropy seed) [] df = Inr []"
    by (rule simulate_loop_none_qualify)
  then show ?thesis by (simp add: simulate_distributions_def)
qed

theorem C5_no_qualifying_rows_witness:
  "\<not> qualifies \<lparr> Department = ''A'', Average_Salary = Some 5, Min_Salary = None, Max_Salary = Some 10 \<rparr>
   \<and> \<not> qualifies \<lparr> Department = ''B'', Average_Salary = Some 5, Min_Salary = Some 7, Max_Salary = Some 7 \<rparr>
   \<and> simulate_distributions toy_generator 0
        [\<lparr> Department = ''A'', Average_Salary = Some 5, Min_Salary = None, Max_Salary = Some 10 \<rparr>,
         \<lparr> Department = ''B'', Average_Salary = Some 5, Min_Salary = Some 7, Max_Salary = Some 7 \<rparr>]
        300 (Some 42)
      = Inr \<lparr> columns = [''Department'', ''Salary''], samples = [] \<rparr>"
proof -
  have h: "\<forall>r \<in> set [\<lparr> Department = ''A'', Average_Salary = Some 5, Min_Salary = None, Max_Salary = Some 10 \<rparr>,
                 \<lparr> Department = ''B'', Average_Salary = Some 5, Min_Salary = Some 7, Max_Salary = Some 7 \<rparr>].
      \<not> qualifies r"
    by (simp add: qualifies_def)
  from h C5_no_qualifying_rows [OF h, of toy_generator 0 300 "Some 42"] show ?thesis by simp
qed

text \<open>
  C10: when the simulation succeeds, the output has samplesPerDept times (number of
  qualifying rows) rows, and its Department column consists of one block of samplesPerDept
  copies of each qualifying row's department, in the order of the input rows.
\<close>

theorem C10_sample_blocks:
  assumes "simulate_distributions G entropy df n seed = Inr out"
  shows "length (samples out) = n * length (filter qualifies df)
       \<and> map fst (samples out) = concat (map (\<lambda>r. replicate n (Department r)) (filter qualifies df))
       \<and> columns out = [''Department'', ''Salary'']"
proof -
  from assms obtain rows where
      loop: "simulate_loop G n (default_rng G entropy seed) [] df = Inr rows"
      and out: "out = (if rows = [] then \<lparr> columns = [''Department'', ''Salary''], samples = [] \<rparr>
                       else pd_concat rows)"
    by (auto simp: simulate_distributions_def split: sum.splits if_splits)
  from simulate_loop_departments [OF loop] have
      len: "length rows = length (filter qualifies df)"
      and cols: "list_all (\<lambda>f. columns f = [''Department'', ''Salary'']) rows"
      and depts: "map (\<lambda>f. map fst (samples f)) rows
                  = map (\<lambda>r. replicate n (Department r)) (filter qualifies df)"
    by auto
  have names: "map fst (concat (map samples rows))
               = concat (map (\<lambda>r. replicate n (Department r)) (filter qualifies df))"
    using depts by (simp add: map_concat comp_def)
  have "length (concat (map (\<lambda>r. replicate n (Department r)) (filter qualifies df)))
        = n * length (filter qualifies df)"
    by (induction df) simp_all
  with names have count: "length (concat (map samples rows)) = n * length (filter qualifies df)"
    by (metis length_map)
  show ?thesis
  proof (cases "rows = []")
    case True
    with out len show ?thesis by simp
  next
    case False
    then have "columns (pd_concat rows) = [''Department'', ''Salary'']"
      using cols by (intro pd_concat_columns) simp_all
    with False out names count show ?thesis by (simp add: pd_concat_def)
  qed
qed

theorem C10_sample_blocks_witness:
  "simulate_distributions toy_generator 0
     [\<lparr> Department = ''A'', Average_Salary = Some 5, Min_Salary = Some 1, Max_Salary = Some 10 \<rparr>,
      \<lparr> Department = ''B'', Average_Salary = Some 5, Min_Salary = None, Max_Salary = Some 10 \<rparr>,
      \<lparr> Department = ''C'', Average_Salary = Some 7, Min_Salary = Some 2, Max_Salary = Some 9 \<rparr>]
     (Suc (Suc 0)) (Some 42)
   = Inr \<lparr> columns = [''Department'', ''Salary''],
           samples = [(''A'', 5), (''A'', 5), (''C'', 7), (''C'', 7)] \<rparr>
   \<and> map fst [(''A'', 5 :: real), (''A'', 5), (''C'', 7), (''C'', 7)] = [''A'', ''A'', ''C'', ''C'']"
proof -
  have run: "simulate_distributions toy_generator 0
     [\<lparr> Department = ''A'', Average_Salary = Some 5, Min_Salary = Some 1, Max_Salary = Some 10 \<rparr>,
      \<lparr> Department = ''B'', Average_Salary = Some 5, Min_Salary = None, Max_Salary = Some 10 \<rparr>,
      \<lparr> Department = ''C'', Average_Salary = Some 7, Min_Salary = Some 2, Max_Salary = Some 9 \<rparr>]
     (Suc (Suc 0)) (Some 42)
   = Inr \<lparr> columns = [''Department'', ''Salary''],
           samples = [(''A'', 5), (''A'', 5), (''C'', 7), (''C'', 7)] \<rparr>"
    by (simp add: simulate_distributions_def default_rng_def triangular_def toy_generator_def
        data_frame_def pd_concat_def)
  from run C10_sample_blocks [OF run] show ?thesis by (simp add: qualifies_def)
qed

section \<open>Properties of filtering\<close>

text \<open>
  C6: filtering with the empty selection returns the table unchanged, for every table.
\<close>

theorem C6_empty_selection_passes_through: "filter_selected [] df = df"
  by (simp add: filter_selected_def)

section \<open>Properties of loading and validation\<close>

lemma lines_example: "filter (\<lambda>l. l \<noteq> []) (split_on newline EXAMPLE_CSV) = map codes
   [''Department,Average_Salary,Min_Salary,Max_Salary'',
      ''IT,28560.182889,10544.19,115178.51'',
      ''Finance,28055.533689,8987.86,101294.41'',
      ''Logistics/Warehousing,27574.698600,9027.53,153451.58'',
      ''Store Operations,27404.359873,8848.62,177873.61'',
      ''Fresh Produce,26915.946969,8998.42,110475.60'',
      ''Marketing,26796.816800,9736.23,65923.63'',
      ''HR,26539.921733,8823.46,58951.29'',
      ''Meat/Fish & Bakery,26535.722133,8867.88,116453.67'',
      ''Customer Service,26244.393800,9449.99,50949.01'']"
  by (simp add: EXAMPLE_CSV_def newline_def codes_def)

lemma read_example:
  "plain_read_csv EXAMPLE_CSV = Inr
     [(codes ''Department'', [Str (codes ''IT''), Str (codes ''Finance''),
         Str (codes ''Logistics/Warehousing''), Str (codes ''Store Operations''),
         Str (codes ''Fresh Produce''), Str (codes ''Marketing''), Str (codes ''HR''),
         Str (codes ''Meat/Fish & Bakery''), Str (codes ''Customer Service'')]),
      (codes ''Average_Salary'', [Num (Some 28560.182889), Num (Some 28055.533689),
         Num (Some 27574.698600), Num (Some 27404.359873), Num (Some 26915.946969),
         Num (Some 26796.816800), Num (Some 26539.921733), Num (Some 26535.722133),
         Num (Some 26244.393800)]),
      (codes ''Min_Salary'', [Num (Some 10544.19), Num (Some 8987.86), Num (Some 9027.53),
         Num (Some 8848.62), Num (Some 8998.42), Num (Some 9736.23), Num (Some 8823.46),
         Num (Some 8867.88), Num (Some 9449.99)]),
      (codes ''Max_Salary'', [Num (Some 115178.51), Num (Some 101294.41), Num (Some 153451.58),
         Num (Some 177873.61), Num (Some 110475.60), Num (Some 65923.63), Num (Some 58951.29),
         Num (Some 116453.67), Num (Some 50949.01)])]"
  unfolding plain_read_csv_def lines_example
  by (simp add: codes_def comma_def infer_column_def is_number_def parse_decimal_def
      parse_unsigned_def isdigit_def digits_value_def Let_def)

text \<open>
  C8: with no uploaded file, \<open>load_data\<close> returns the embedded dataset: the four columns
  Department, Average\_Salary, Min\_Salary, Max\_Salary and exactly nine rows, which are,
  row for row, the literal values of the specification, IT through Customer Service.
\<close>

theorem C8_default_dataset:
  "map_sum id (\<lambda>df. (df_columns df, df_records df)) (load_data plain_pandas None) =
     Inr (map codes [''Department'', ''Average_Salary'', ''Min_Salary'', ''Max_Salary''],
          [[Str (codes ''IT''), Num (Some 28560.182889), Num (Some 10544.19), Num (Some 115178.51)],
           [Str (codes ''Finance''), Num (Some 28055.533689), Num (Some 8987.86), Num (Some 101294.41)],
           [Str (codes ''Logistics/Warehousing''), Num (Some 27574.698600), Num (Some 9027.53), Num (Some 153451.58)],
           [Str (codes ''Store Operations''), Num (Some 27404.359873), Num (Some 8848.62), Num (Some 177873.61)],
           [Str (codes ''Fresh Produce''), Num (Some 26915.946969), Num (Some 8998.42), Num (Some 110475.60)],
           [Str (codes ''Marketing''), Num (Some 26796.816800), Num (Some 9736.23), Num (Some 65923.63)],
           [Str (codes ''HR''), Num (Some 26539.921733), Num (Some 8823.46), Num (Some 58951.29)],
           [Str (codes ''Meat/Fish & Bakery''), Num (Some 26535.722133), Num (Some 8867.88), Num (Some 116453.67)],
           [Str (codes ''Customer Service''), Num (Some 26244.393800), Num (Some 9449.99), Num (Some 50949.01)]])"
  by (simp add: load_data_def plain_pandas_def read_example coerce_column_def
      plain_to_numeric_def df_columns_def df_records_def strip_def isspace_def codes_def)

lemma relabel_free:
  "map fst (map (\<lambda>col. if fst col = c then (fst col, g (snd col)) else col) df) = map fst df"
  by (induction df) auto

lemma coerce_column_labels: "coerce_column P c df = Inr df' \<Longrightarrow> map fst df' = map fst df"
  unfolding coerce_column_def using relabel_free [of c "to_numeric P" df]
  by (auto split: if_splits)

lemma coerce_columns_labels: "coerce_columns P cs df = Inr df' \<Longrightarrow> map fst df' = map fst df"
proof (induction cs arbitrary: df)
  case Nil
  then show ?case by simp
next
  case (Cons c cs)
  then obtain d where d: "coerce_column P c df = Inr d" and rest: "coerce_columns P cs d = Inr df'"
    by (auto split: sum.splits)
  from Cons.IH [OF rest] coerce_column_labels [OF d] show ?case by simp
qed

text \<open>
  C9: for every frame that \<open>load_data\<close> returns, the schema check stops the run with
  \<open>SchemaError\<close> if and only if the four required names are not all among the header
  names of the file after trimming; the comparison is equality of strings, hence
  case-sensitive. The header \<open>dept, AVG, MIN, MAX\<close> is rejected; a header with the exact
  names between whitespace, also whitespace beyond ASCII, is accepted.
\<close>

theorem C9_schema_check:
  assumes "read_csv P (case uploaded_file of None \<Rightarrow> EXAMPLE_CSV | Some content \<Rightarrow> content) = Inr raw"
    and "load_data P uploaded_file = Inr df"
  shows "check_required_cols df = Inl SchemaError
         \<longleftrightarrow> \<not> set required_cols \<subseteq> set (map (\<lambda>col. strip (fst col)) raw)"
proof -
  from assms have "coerce_columns P (map codes [''Average_Salary'', ''Min_Salary'', ''Max_Salary''])
                     (map (\<lambda>col. (strip (fst col), snd col)) raw) = Inr df"
    by (cases uploaded_file) (simp_all add: load_data_def)
  then have "map fst df = map fst (map (\<lambda>col. (strip (fst col), snd col)) raw)"
    by (rule coerce_columns_labels)
  then have "map fst df = map (\<lambda>col. strip (fst col)) raw"
    by (simp add: comp_def)
  then show ?thesis by (simp add: check_required_cols_def)
qed

lemma read_lowercase:
  "plain_read_csv lowercase_csv =
     Inr [(codes ''dept'', [Str (codes ''a'')]), (codes '' AVG'', [Num (Some 1)]),
          (codes '' MIN'', [Num (Some 2)]), (codes '' MAX'', [Num (Some 3)])]"
  by (simp add: plain_read_csv_def lowercase_csv_def newline_def comma_def codes_def
      infer_column_def is_number_def parse_decimal_def parse_unsigned_def isdigit_def
      digits_value_def Let_def)

lemma load_lowercase:
  "load_data plain_pandas (Some lowercase_csv) =
     Inr [(codes ''dept'', [Str (codes ''a'')]), (codes ''AVG'', [Num (Some 1)]),
          (codes ''MIN'', [Num (Some 2)]), (codes ''MAX'', [Num (Some 3)])]"
  by (simp add: load_data_def plain_pandas_def read_lowercase coerce_column_def
      plain_to_numeric_def strip_def isspace_def codes_def)

lemma read_nbsp:
  "plain_read_csv nbsp_csv =
     Inr [(0xA0 # codes ''Department'', [Str (codes ''a'')]), (codes ''Average_Salary'', [Num (Some 1)]),
          (codes ''Min_Salary'', [Num (Some 0)]), (codes ''Max_Salary'' @ [0x3000], [Num (Some 2)])]"
  by (simp add: plain_read_csv_def nbsp_csv_def newline_def comma_def codes_def
      infer_column_def is_number_def parse_decimal_def parse_unsigned_def isdigit_def
      digits_value_def Let_def)

lemma load_nbsp:
  "load_data plain_pandas (Some nbsp_csv) =
     Inr [(codes ''Department'', [Str (codes ''a'')]), (codes ''Average_Salary'', [Num (Some 1)]),
          (codes ''Min_Salary'', [Num (Some 0)]), (codes ''Max_Salary'', [Num (Some 2)])]"
  by (simp add: load_data_def plain_pandas_def read_nbsp coerce_column_def
      plain_to_numeric_def strip_def isspace_def codes_def)

theorem C9_schema_check_witness:
  "load_data plain_pandas (Some lowercase_csv) =
     Inr [(codes ''dept'', [Str (codes ''a'')]), (codes ''AVG'', [Num (Some 1)]),
          (codes ''MIN'', [Num (Some 2)]), (codes ''MAX'', [Num (Some 3)])]
   \<and> check_required_cols [(codes ''dept'', [Str (codes ''a'')]), (codes ''AVG'', [Num (Some 1)]),
          (codes ''MIN'', [Num (Some 2)]), (codes ''MAX'', [Num (Some 3)])] = Inl SchemaError
   \<and> load_data plain_pandas (Some nbsp_csv) =
     Inr [(codes ''Department'', [Str (codes ''a'')]), (codes ''Average_Salary'', [Num (Some 1)]),
          (codes ''Min_Salary'', [Num (Some 0)]), (codes ''Max_Salary'', [Num (Some 2)])]
   \<and> check_required_cols [(codes ''Department'', [Str (codes ''a'')]),
          (codes ''Average_Salary'', [Num (Some 1)]), (codes ''Min_Salary'', [Num (Some 0)]),
          (codes ''Max_Salary'', [Num (Some 2)])] \<noteq> Inl SchemaError"
proof -
  have r1: "read_csv plain_pandas (case Some lowercase_csv of None \<Rightarrow> EXAMPLE_CSV | Some content \<Rightarrow> content) =
     Inr [(codes ''dept'', [Str (codes ''a'')]), (codes '' AVG'', [Num (Some 1)]),
          (codes '' MIN'', [Num (Some 2)]), (codes '' MAX'', [Num (Some 3)])]"
    by (simp add: plain_pandas_def read_lowercase)
  have n1: "\<not> set required_cols \<subseteq> set (map (\<lambda>col. strip (fst col))
        [(codes ''dept'', [Str (codes ''a'')]), (codes '' AVG'', [Num (Some (1 :: real))]),
          (codes '' MIN'', [Num (Some 2)]), (codes '' MAX'', [Num (Some 3)])])"
    by (simp add: required_cols_def strip_def isspace_def codes_def)
  have r2: "read_csv plain_pandas (case Some nbsp_csv of None \<Rightarrow> EXAMPLE_CSV | Some content \<Rightarrow> content) =
     Inr [(0xA0 # codes ''Department'', [Str (codes ''a'')]), (codes ''Average_Salary'', [Num (Some 1)]),
          (codes ''Min_Salary'', [Num (Some 0)]), (codes ''Max_Salary'' @ [0x3000], [Num (Some 2)])]"
    by (simp add: plain_pandas_def read_nbsp)
  have n2: "set required_cols \<subseteq> set (map (\<lambda>col. strip (fst col))
        [(0xA0 # codes ''Department'', [Str (codes ''a'')]), (codes ''Average_Salary'', [Num (Some (1 :: real))]),
          (codes ''Min_Salary'', [Num (Some 0)]), (codes ''Max_Salary'' @ [0x3000], [Num (Some 2)])])"
    by (simp add: required_cols_def strip_def isspace_def codes_def)
  have a: "check_required_cols [(codes ''dept'', [Str (codes ''a'')]), (codes ''AVG'', [Num (Some 1)]),
          (codes ''MIN'', [Num (Some 2)]), (codes ''MAX'', [Num (Some 3)])] = Inl SchemaError"
    by (rule iffD2 [OF C9_schema_check [OF r1 load_lowercase] n1])
  have b: "check_required_cols [(codes ''Department'', [Str (codes ''a'')]),
          (codes ''Average_Salary'', [Num (Some 1)]), (codes ''Min_Salary'', [Num (Some 0)]),
          (codes ''Max_Salary'', [Num (Some 2)])] \<noteq> Inl SchemaError"
  proof
    assume "check_required_cols [(codes ''Department'', [Str (codes ''a'')]),
          (codes ''Average_Salary'', [Num (Some 1)]), (codes ''Min_Salary'', [Num (Some 0)]),
          (codes ''Max_Salary'', [Num (Some 2)])] = Inl SchemaError"
    from iffD1 [OF C9_schema_check [OF r2 load_nbsp] this] n2 show False by (rule notE)
  qed
  show ?thesis by (rule conjI [OF load_lowercase conjI [OF a conjI [OF load_nbsp b]]])
qed


end
